theory Spec2Isabelle
  imports Main "HOL-Library.Char_ord" "HOL-Library.List_Lexorder" "HOL-Library.Multiset"
begin

section \<open>Errors\<close>

text \<open>
  Go error values: \<open>errors.New(msg)\<close> and \<open>fmt.Errorf(...)\<close> build a fresh error that
  carries a message, \<open>errors.Wrap(err, msg)\<close> (github.com/pkg/errors) puts a message
  around an existing error. A \<open>nil\<close> error is \<open>None\<close> for a function that only returns
  an error, and the \<open>Inr\<close> side of a sum for a function that also returns a value.
\<close>

datatype error = New string | Wrap error string

section \<open>Data model\<close>

text \<open>
  \<open>creds.LoginDetails\<close>: the struct is declared in package \<open>creds\<close>; the fields below are
  the ones that \<open>Validate\<close> and \<open>PromptForLoginDetails\<close> read or write.
\<close>

record LoginDetails =
  ClientID :: string
  ClientSecret :: string
  Username :: string
  Password :: string
  URL :: string
  Provider :: string

text \<open>
  Modelled from the spec: the declarations of \<open>RamRole\<close> and \<open>AlibabaCloudAccount\<close> are
  not in the sources modelled here. The spec gives a role a display name, a role ARN and a
  principal ARN, and an account a name and its roles; the code reads \<open>account.Name\<close>,
  \<open>account.Roles\<close> and \<open>role.Name\<close>. The slices hold pointers; they are taken to be
  non-nil, and the returned \<open>*RamRole\<close> is an option (nil is \<open>None\<close>).
\<close>

record RamRole =
  RoleARN :: string
  PrincipalARN :: string
  Name :: string

record AlibabaCloudAccount =
  Name :: string
  Roles :: "RamRole list"

text \<open>
  \<open>cfg.IDPAccount\<close>, field by field as declared. Go's \<open>int\<close> fields are never computed
  with, so they are plain integers here.
\<close>

record IDPAccount =
  AppID :: string
  URL :: string
  Username :: string
  Provider :: string
  MFA :: string
  SkipVerify :: bool
  Timeout :: int
  AlibabaCloudURN :: string
  SessionDuration :: int
  Profile :: string
  ResourceID :: string
  Subdomain :: string
  RoleARN :: string
  Region :: string
  HTTPAttemptsCount :: string
  HTTPRetryDelay :: string
  BrowserType :: string
  BrowserExecutablePath :: string
  BrowserAutoFill :: bool
  DownloadBrowser :: bool
  BrowserDriverDir :: string
  Headless :: bool
  Prompter :: string

definition DefaultAlibabaCloudURN :: string where
  "DefaultAlibabaCloudURN = ''urn:alibaba:cloudcomputing''"

definition DefaultSessionDuration :: int where
  "DefaultSessionDuration = 3600"

definition DefaultProfile :: string where
  "DefaultProfile = ''saml''"

text \<open>\<open>NewIDPAccount\<close>: three defaults, every other field at Go's zero value.\<close>

definition NewIDPAccount :: IDPAccount where
  "NewIDPAccount =
     \<lparr>AppID = '''', URL = '''', Username = '''', Provider = '''', MFA = '''',
      SkipVerify = False, Timeout = 0,
      AlibabaCloudURN = DefaultAlibabaCloudURN,
      SessionDuration = DefaultSessionDuration,
      Profile = DefaultProfile,
      ResourceID = '''', Subdomain = '''', RoleARN = '''', Region = '''',
      HTTPAttemptsCount = '''', HTTPRetryDelay = '''', BrowserType = '''',
      BrowserExecutablePath = '''', BrowserAutoFill = False, DownloadBrowser = False,
      BrowserDriverDir = '''', Headless = False, Prompter = ''''\<rparr>"

section \<open>Login details validation (package provider)\<close>

definition ValidateBase_Validate :: "LoginDetails \<Rightarrow> error option" where
  "ValidateBase_Validate ld =
     (if LoginDetails.URL ld = '''' then Some (New ''Empty URL'')
      else if LoginDetails.Provider ld \<noteq> ''Browser'' then
        (if LoginDetails.Username ld = '''' then Some (New ''Empty username'')
         else if LoginDetails.Password ld = '''' then Some (New ''Empty password'')
         else None)
      else None)"

section \<open>Provider registry\<close>

text \<open>
  \<open>ProviderList\<close> is \<open>map[string][]string\<close>. It is kept as an association list with
  the keys in the order of the source literal; a Go map has no order, and the only
  function that walks the keys (\<open>Names\<close>) sorts them before returning.

  \<open>MFAsByProvider\<close> is a package-level variable. Functions that touch it take the
  current table and return the table they leave behind.
\<close>

type_synonym ProviderList = "(string \<times> string list) list"

definition MFAsByProvider :: ProviderList where
  "MFAsByProvider =
     [(''AzureAD'', [''Auto'', ''PhoneAppOTP'', ''PhoneAppNotification'', ''OneWaySMS'']),
      (''ADFS'', [''Auto'', ''VIP'', ''Azure'']),
      (''ADFS2'', [''Auto'', ''RSA'']),
      (''Ping'', [''Auto'']),
      (''PingOne'', [''Auto'']),
      (''JumpCloud'', [''Auto'']),
      (''Okta'', [''Auto'', ''PUSH'', ''DUO'', ''SMS'', ''TOTP'', ''OKTA'', ''FIDO'',
                 ''YUBICO TOKEN:HARDWARE'']),
      (''OneLogin'', [''Auto'', ''OLP'', ''SMS'', ''TOTP'', ''YUBIKEY'']),
      (''KeyCloak'', [''Auto'']),
      (''GoogleApps'', [''Auto'']),
      (''Shibboleth'', [''Auto'']),
      (''F5APM'', [''Auto'']),
      (''Akamai'', [''Auto'', ''DUO'', ''SMS'', ''EMAIL'', ''TOTP'']),
      (''ShibbolethECP'', [''auto'', ''phone'', ''push'', ''passcode'']),
      (''NetIQ'', [''Auto'', ''Privileged'']),
      (''Custom'', [''Auto'']),
      (''Browser'', [''Auto''])]"

text \<open>\<open>mfbp[provider]\<close>: the stored slice, or the nil slice for a missing key.\<close>

definition index_map :: "ProviderList \<Rightarrow> string \<Rightarrow> string list" where
  "index_map mfbp provider = (case map_of mfbp provider of None \<Rightarrow> [] | Some mfas \<Rightarrow> mfas)"

text \<open>
  \<open>sort.Strings\<close> orders Go strings byte-wise; on lists of characters that is the
  lexicographic order of \<open>List_Lexorder\<close> over the character codes of \<open>Char_ord\<close>.
\<close>

definition sort_Strings :: "string list \<Rightarrow> string list" where
  "sort_Strings xs = sort xs"

text \<open>\<open>Names\<close> collects the keys into a fresh slice and sorts that slice.\<close>

definition Names :: "ProviderList \<Rightarrow> string list" where
  "Names mfbp = sort_Strings (map fst mfbp)"

text \<open>
  \<open>Mfas\<close> copies the slice header out of the map and sorts it in place. The header
  shares its backing array with the map's entry, so the entry of \<open>provider\<close> is sorted
  as well; a missing key yields the nil slice and leaves the map alone.
\<close>

definition Mfas :: "ProviderList \<Rightarrow> string \<Rightarrow> string list \<times> ProviderList" where
  "Mfas mfbp provider =
     (let mfas = sort_Strings (index_map mfbp provider)
      in (mfas, map (\<lambda>(k, v). if k = provider then (k, sort_Strings v) else (k, v)) mfbp))"

fun stringInSlice :: "string \<Rightarrow> string list \<Rightarrow> bool" where
  "stringInSlice a [] = False"
| "stringInSlice a (b # list) = (if b = a then True else stringInSlice a list)"

definition invalidMFA :: "ProviderList \<Rightarrow> string \<Rightarrow> string \<Rightarrow> bool \<times> ProviderList" where
  "invalidMFA tbl provider mfa =
     (case Mfas tbl provider of
        (supportedMfas, tbl') \<Rightarrow> (\<not> stringInSlice mfa supportedMfas, tbl'))"

text \<open>
  \<open>NewSAMLClient\<close> ends every successful branch in a call of a provider package's
  constructor (\<open>aad.New(idpAccount)\<close>, ...). The provider packages are not part of
  the sources modelled here, so the model returns the constructor call the branch makes.
\<close>

datatype Constructor =
    aad_New IDPAccount
  | adfs_New IDPAccount
  | adfs2_New IDPAccount
  | pingfed_New IDPAccount
  | pingone_New IDPAccount
  | jumpcloud_New IDPAccount
  | okta_New IDPAccount
  | onelogin_New IDPAccount
  | keycloak_New IDPAccount
  | googleapps_New IDPAccount
  | shibboleth_New IDPAccount
  | shibbolethecp_New IDPAccount
  | f5apm_New IDPAccount
  | akamai_New IDPAccount
  | shell_New IDPAccount
  | netiq_New IDPAccount string
  | browser_New IDPAccount
  | custom_New IDPAccount

text \<open>\<open>fmt.Errorf("invalid MFA type: %v for %v provider", mfa, provider)\<close>\<close>

definition invalid_MFA_type :: "string \<Rightarrow> string \<Rightarrow> error" where
  "invalid_MFA_type mfa provider =
     New (''invalid MFA type: '' @ mfa @ '' for '' @ provider @ '' provider'')"

text \<open>\<open>fmt.Errorf("invalid provider: %v", provider)\<close>\<close>

definition invalid_provider :: "string \<Rightarrow> error" where
  "invalid_provider provider = New (''invalid provider: '' @ provider)"

text \<open>The block every MFA-checked case of the switch repeats.\<close>

definition checked_case ::
  "ProviderList \<Rightarrow> IDPAccount \<Rightarrow> Constructor \<Rightarrow> (error + Constructor) \<times> ProviderList" where
  "checked_case tbl idpAccount ctor =
     (case invalidMFA tbl (Provider idpAccount) (MFA idpAccount) of
        (invalid, tbl') \<Rightarrow>
          if invalid then (Inl (invalid_MFA_type (MFA idpAccount) (Provider idpAccount)), tbl')
          else (Inr ctor, tbl'))"

definition NewSAMLClient ::
  "ProviderList \<Rightarrow> IDPAccount \<Rightarrow> (error + Constructor) \<times> ProviderList" where
  "NewSAMLClient tbl idpAccount =
     (let p = Provider idpAccount in
      if p = ''AzureAD'' then checked_case tbl idpAccount (aad_New idpAccount)
      else if p = ''ADFS'' then checked_case tbl idpAccount (adfs_New idpAccount)
      else if p = ''ADFS2'' then checked_case tbl idpAccount (adfs2_New idpAccount)
      else if p = ''Ping'' then checked_case tbl idpAccount (pingfed_New idpAccount)
      else if p = ''PingOne'' then checked_case tbl idpAccount (pingone_New idpAccount)
      else if p = ''JumpCloud'' then checked_case tbl idpAccount (jumpcloud_New idpAccount)
      else if p = ''Okta'' then checked_case tbl idpAccount (okta_New idpAccount)
      else if p = ''OneLogin'' then checked_case tbl idpAccount (onelogin_New idpAccount)
      else if p = ''KeyCloak'' then checked_case tbl idpAccount (keycloak_New idpAccount)
      else if p = ''GoogleApps'' then checked_case tbl idpAccount (googleapps_New idpAccount)
      else if p = ''Shibboleth'' then checked_case tbl idpAccount (shibboleth_New idpAccount)
      else if p = ''ShibbolethECP'' then
        checked_case tbl idpAccount (shibbolethecp_New idpAccount)
      else if p = ''F5APM'' then checked_case tbl idpAccount (f5apm_New idpAccount)
      else if p = ''Akamai'' then checked_case tbl idpAccount (akamai_New idpAccount)
      else if p = ''Shell'' then (Inr (shell_New idpAccount), tbl)
      else if p = ''NetIQ'' then
        checked_case tbl idpAccount (netiq_New idpAccount (MFA idpAccount))
      else if p = ''Browser'' then (Inr (browser_New idpAccount), tbl)
      else if p = ''Custom'' then (Inr (custom_New idpAccount), tbl)
      else (Inl (invalid_provider p), tbl))"

section \<open>Interactive prompts (input.go)\<close>

text \<open>
  Package \<open>prompter\<close> is an external collaborator: its three entry points are
  parameters of the functions that call them. Within one run of a function below every
  call carries a different prompt text, so a function of the arguments stands for the
  interactive answers. \<open>log.Println\<close> only writes to the log and is left out.
\<close>

text \<open>
  \<open>PromptForLoginDetails\<close> updates \<open>*loginDetails\<close> and returns an error that is
  always nil; the model returns both.
\<close>

definition PromptForLoginDetails ::
  "(string \<Rightarrow> string \<Rightarrow> string) \<Rightarrow> (string \<Rightarrow> string) \<Rightarrow> LoginDetails \<Rightarrow> string
     \<Rightarrow> error option \<times> LoginDetails" where
  "PromptForLoginDetails prompter_String prompter_Password loginDetails provider =
     (if provider = ''Browser'' then (None, loginDetails)
      else
        let ld1 = loginDetails\<lparr>LoginDetails.Username :=
                    prompter_String ''Username'' (LoginDetails.Username loginDetails)\<rparr>;
            enteredPassword = prompter_Password ''Password'';
            ld2 = (if enteredPassword \<noteq> '''' then ld1\<lparr>Password := enteredPassword\<rparr>
                   else ld1)
        in if provider = ''OneLogin'' then
             let ld3 = (if ClientID ld2 = '''' then
                          let enteredClientID = prompter_Password ''Client ID''
                          in if enteredClientID \<noteq> '''' then ld2\<lparr>ClientID := enteredClientID\<rparr>
                             else ld2
                        else ld2);
                 ld4 = (if ClientSecret ld3 = '''' then
                          let enteredCientSecret = prompter_Password ''Client Secret''
                          in if enteredCientSecret \<noteq> ''''
                             then ld3\<lparr>ClientSecret := enteredCientSecret\<rparr>
                             else ld3
                        else ld3)
             in (None, ld4)
           else (None, ld2))"

text \<open>The inner loop: one label per role, stored in the map and appended to the slice.\<close>

fun range_roles ::
  "string \<Rightarrow> RamRole list \<Rightarrow> (string \<rightharpoonup> RamRole) \<times> string list
     \<Rightarrow> (string \<rightharpoonup> RamRole) \<times> string list" where
  "range_roles accountName [] (roles, roleOptions) = (roles, roleOptions)"
| "range_roles accountName (role # rest) (roles, roleOptions) =
     (let name = accountName @ '' / '' @ RamRole.Name role
      in range_roles accountName rest (roles(name \<mapsto> role), roleOptions @ [name]))"

text \<open>The outer loop over the accounts.\<close>

fun range_accounts ::
  "AlibabaCloudAccount list \<Rightarrow> (string \<rightharpoonup> RamRole) \<times> string list
     \<Rightarrow> (string \<rightharpoonup> RamRole) \<times> string list" where
  "range_accounts [] acc = acc"
| "range_accounts (account # rest) acc =
     range_accounts rest
       (range_roles (AlibabaCloudAccount.Name account) (Roles account) acc)"

text \<open>
  A run of \<open>PromptForRamRoleSelection\<close> either panics (the Go runtime's index check) or
  returns its pair \<open>(*RamRole, error)\<close>.
\<close>

datatype panic = index_out_of_range nat nat

definition PromptForRamRoleSelection ::
  "(string \<Rightarrow> string \<Rightarrow> string list \<Rightarrow> error + string) \<Rightarrow> AlibabaCloudAccount list
     \<Rightarrow> panic + (error + RamRole option)" where
  "PromptForRamRoleSelection prompter_ChooseWithDefault accounts =
     (case range_accounts accounts (Map.empty, []) of
        (roles, roleOptions0) \<Rightarrow>
          (let roleOptions = sort_Strings roleOptions0
           in (case roleOptions of
                 [] \<Rightarrow> Inl (index_out_of_range 0 0)
               | first # _ \<Rightarrow>
                   (case prompter_ChooseWithDefault ''Please choose the role'' first
                           roleOptions of
                      Inl err \<Rightarrow> Inr (Inl (Wrap err ''Role selection failed''))
                    | Inr selectedRole \<Rightarrow> Inr (Inr (roles selectedRole))))))"

section \<open>Profile configuration store (package cfg)\<close>


record ConfigManager =
  configPath :: string

subsection \<open>The ini library and the file system\<close>

text \<open>
  \<open>gopkg.in/ini.v1\<close> and the file system are external. What the code relies on is
  modelled as follows.
  \<^item> In memory a file is a list of named sections, a section a list of keys with string
    values.
  \<^item> At a path there is no file, or there are bytes. What the parser reads from bytes
    and what the writer produces for a file in memory are functions of the library
    (\<open>ini_parse\<close>, \<open>ini_write\<close>); nothing is assumed about them, in particular not that
    the parser reads back what the writer wrote.
  \<^item> \<open>LoadOptions{Loose: true}\<close> makes \<open>LoadSources\<close> ignore a file that does not
    exist; the error of a file that is there and does not parse is returned.
  \<^item> A loaded file always has the default section, and the empty name stands for it.
  \<^item> A section whose name contains dots is a child section: a key it does not hold is
    looked up in its parent sections (\<open>a.b.c\<close>, then \<open>a.b\<close>, then \<open>a\<close>), nearest
    first. Both \<open>MapTo\<close> and \<open>ReflectFrom\<close> find their keys this way.
  \<^item> How the text of a key becomes a string (values with a \<open>%\<close> are interpolated), a
    bool or an int is the library's (\<open>ini_interpolate\<close>, \<open>ini_bool\<close>, \<open>ini_int\<close>).
  \<^item> Writing a file can fail for reasons of the operating system.
\<close>

type_synonym Section = "(string \<times> string) list"

type_synonym File = "(string \<times> Section) list"

datatype 'b source = NotExist | Content 'b

record 'b FileSystem =
  contents :: "string \<Rightarrow> 'b source"
  write_error :: "string \<Rightarrow> error option"

record 'b Library =
  ini_parse :: "'b \<Rightarrow> error + File"
  ini_write :: "File \<Rightarrow> 'b"
  ini_interpolate :: "File \<Rightarrow> string \<Rightarrow> string \<Rightarrow> string"
  ini_bool :: "string \<Rightarrow> bool \<Rightarrow> bool"
  ini_int :: "string \<Rightarrow> int \<Rightarrow> int"

definition DefaultSection :: string where
  "DefaultSection = ''DEFAULT''"

definition LoadSources :: "'b Library \<Rightarrow> bool \<Rightarrow> 'b FileSystem \<Rightarrow> string \<Rightarrow> error + File" where
  "LoadSources lib Loose fs path =
     (case contents fs path of
        NotExist \<Rightarrow>
          if Loose then Inr [(DefaultSection, [])]
          else Inl (New (''open '' @ path @ '': no such file or directory''))
      | Content b \<Rightarrow>
          (case ini_parse lib b of
             Inl err \<Rightarrow> Inl err
           | Inr f \<Rightarrow>
               Inr (if map_of f DefaultSection = None then (DefaultSection, []) # f else f)))"

text \<open>\<open>GetSection\<close>: the section of a name, the default section for the empty name.\<close>

definition section_name :: "string \<Rightarrow> string" where
  "section_name name = (if name = '''' then DefaultSection else name)"

definition GetSection :: "File \<Rightarrow> string \<Rightarrow> Section option" where
  "GetSection f name = map_of f (section_name name)"


text \<open>
  \<open>File.Section\<close> returns the section of a name and makes an empty one first when the
  file has none (the default section is always there after a load). The result is the
  file it leaves in memory and the name of the section.
\<close>

definition File_Section :: "File \<Rightarrow> string \<Rightarrow> File \<times> string" where
  "File_Section f name =
     (case GetSection f name of
        Some sec \<Rightarrow> (f, section_name name)
      | None \<Rightarrow> (f @ [(section_name name, [])], section_name name))"

text \<open>
  The parent sections of a section name, nearest first: the name is cut at its last
  dot, the rest at its last dot, and so on (\<open>strings.LastIndex\<close> in the loop of
  \<open>Section.GetKey\<close>). The function works on the reversed name.
\<close>

fun cut_at_dots :: "string \<Rightarrow> string list" where
  "cut_at_dots [] = []"
| "cut_at_dots (c # cs) =
     (if c = CHR ''.'' then rev cs # cut_at_dots cs else cut_at_dots cs)"

definition parents :: "string \<Rightarrow> string list" where
  "parents sname = cut_at_dots (rev sname)"

text \<open>
  \<open>Section.GetKey\<close>: the key of the section itself, or else of the nearest parent
  section that exists and holds it. The result names the section that holds the key
  and gives the key's text.
\<close>

fun find_key :: "File \<Rightarrow> string list \<Rightarrow> string \<Rightarrow> (string \<times> string) option" where
  "find_key f [] key = None"
| "find_key f (sname # rest) key =
     (case GetSection f sname of
        None \<Rightarrow> find_key f rest key
      | Some sec \<Rightarrow>
          (case map_of sec key of
             None \<Rightarrow> find_key f rest key
           | Some v \<Rightarrow> Some (section_name sname, v)))"

definition GetKey :: "File \<Rightarrow> string \<Rightarrow> string \<Rightarrow> (string \<times> string) option" where
  "GetKey f sname key = find_key f (sname # parents sname) key"












text \<open>
  \<open>Key.String\<close>: the text of the key, interpolated by the library when it holds a
  \<open>%\<close>.
\<close>

definition Key_String :: "'b Library \<Rightarrow> File \<Rightarrow> string \<Rightarrow> string \<Rightarrow> string" where
  "Key_String lib f holder v =
     (if CHR ''%'' \<in> set v then ini_interpolate lib f holder v else v)"

text \<open>
  \<open>MapTo\<close> sets a field from the key of its tag when \<open>GetKey\<close> finds one, and leaves
  it alone otherwise. A string key with an empty value leaves the field alone too; what
  a bool or an int field becomes is up to the library's conversion of the key's text
  (the mapping is not strict, so no error comes back).
\<close>

definition map_string :: "'b Library \<Rightarrow> File \<Rightarrow> string \<Rightarrow> string \<Rightarrow> string \<Rightarrow> string" where
  "map_string lib f sname key field =
     (case GetKey f sname key of
        None \<Rightarrow> field
      | Some (holder, v) \<Rightarrow>
          if Key_String lib f holder v = '''' then field else Key_String lib f holder v)"

definition map_bool :: "'b Library \<Rightarrow> File \<Rightarrow> string \<Rightarrow> string \<Rightarrow> bool \<Rightarrow> bool" where
  "map_bool lib f sname key field =
     (case GetKey f sname key of
        None \<Rightarrow> field
      | Some (holder, v) \<Rightarrow> ini_bool lib (Key_String lib f holder v) field)"

definition map_int :: "'b Library \<Rightarrow> File \<Rightarrow> string \<Rightarrow> string \<Rightarrow> int \<Rightarrow> int" where
  "map_int lib f sname key field =
     (case GetKey f sname key of
        None \<Rightarrow> field
      | Some (holder, v) \<Rightarrow> ini_int lib (Key_String lib f holder v) field)"

definition MapTo :: "'b Library \<Rightarrow> File \<Rightarrow> string \<Rightarrow> IDPAccount \<Rightarrow> error + IDPAccount" where
  "MapTo lib f sname a =
     Inr \<lparr>AppID = map_string lib f sname ''app_id'' (AppID a),
          URL = map_string lib f sname ''url'' (URL a),
          Username = map_string lib f sname ''username'' (Username a),
          Provider = map_string lib f sname ''provider'' (Provider a),
          MFA = map_string lib f sname ''mfa'' (MFA a),
          SkipVerify = map_bool lib f sname ''skip_verify'' (SkipVerify a),
          Timeout = map_int lib f sname ''timeout'' (Timeout a),
          AlibabaCloudURN = map_string lib f sname ''alibabacloud_urn'' (AlibabaCloudURN a),
          SessionDuration =
            map_int lib f sname ''alibabacloud_session_duration'' (SessionDuration a),
          Profile = map_string lib f sname ''alibabacloud_profile'' (Profile a),
          ResourceID = map_string lib f sname ''resource_id'' (ResourceID a),
          Subdomain = map_string lib f sname ''subdomain'' (Subdomain a),
          RoleARN = map_string lib f sname ''role_arn'' (RoleARN a),
          Region = map_string lib f sname ''region'' (Region a),
          HTTPAttemptsCount =
            map_string lib f sname ''http_attempts_count'' (HTTPAttemptsCount a),
          HTTPRetryDelay = map_string lib f sname ''http_retry_delay'' (HTTPRetryDelay a),
          BrowserType = map_string lib f sname ''browser_type'' (BrowserType a),
          BrowserExecutablePath =
            map_string lib f sname ''browser_executable_path'' (BrowserExecutablePath a),
          BrowserAutoFill = map_bool lib f sname ''browser_autofill'' (BrowserAutoFill a),
          DownloadBrowser =
            map_bool lib f sname ''download_browser_driver'' (DownloadBrowser a),
          BrowserDriverDir = map_string lib f sname ''browser_driver_dir'' (BrowserDriverDir a),
          Headless = map_bool lib f sname ''headless'' (Headless a),
          Prompter = map_string lib f sname ''prompter'' (Prompter a)\<rparr>"

subsection \<open>Saving and loading an account\<close>


definition readAccount :: "'b Library \<Rightarrow> string \<Rightarrow> File \<Rightarrow> error + IDPAccount" where
  "readAccount lib idpAccountName cfg =
     (let account = NewIDPAccount
      in case File_Section cfg idpAccountName of
           (cfg', sec) \<Rightarrow>
             (case MapTo lib cfg' sec account of
                Inl err \<Rightarrow> Inl (Wrap err ''Unable to map account'')
              | Inr account' \<Rightarrow> Inr account'))"

definition LoadIDPAccount ::
  "'b Library \<Rightarrow> 'b FileSystem \<Rightarrow> ConfigManager \<Rightarrow> string \<Rightarrow> error + IDPAccount" where
  "LoadIDPAccount lib fs cm idpAccountName =
     (case LoadSources lib True fs (configPath cm) of
        Inl err \<Rightarrow> Inl (Wrap err ''Unable to load configuration file'')
      | Inr cfg \<Rightarrow>
         (case readAccount lib idpAccountName cfg of
            Inl err \<Rightarrow> Inl (Wrap err ''Unable to read idp account'')
          | Inr account \<Rightarrow> Inr account))"

section \<open>Notions of the specification\<close>

text \<open>
  The definitions of this section follow the words of the specification, not the
  code; the theorems below compare the code with them.
\<close>

text \<open>
  The composite labels of the role resolver: \<open>"<accountName> / <roleName>"\<close> for every
  role of every account, in the order of the input.
\<close>

definition composite_labels :: "AlibabaCloudAccount list \<Rightarrow> string list" where
  "composite_labels accounts =
     concat (map (\<lambda>a. map (\<lambda>r. AlibabaCloudAccount.Name a @ '' / '' @ RamRole.Name r) (Roles a))
               accounts)"



text \<open>
  The keys a file in memory holds under a section name, none when it has no such
  section.
\<close>

definition section_keys :: "File \<Rightarrow> string \<Rightarrow> Section" where
  "section_keys f name = (case GetSection f name of None \<Rightarrow> [] | Some keys \<Rightarrow> keys)"

text \<open>
  A section name with its parent sections, as the library looks them up: \<open>a.b.c\<close>,
  \<open>a.b\<close>, \<open>a\<close>.
\<close>

definition lineage :: "string \<Rightarrow> string list" where
  "lineage name = map section_name (name # parents name)"

text \<open>
  The file that a load hands to the code: what the library parses from the bytes at
  the path, the empty file when nothing is there (none when the load fails).
\<close>

definition loaded :: "'b Library \<Rightarrow> 'b FileSystem \<Rightarrow> string \<Rightarrow> File option" where
  "loaded lib fs path =
     (case LoadSources lib True fs path of Inl err \<Rightarrow> None | Inr f \<Rightarrow> Some f)"

section \<open>Provider registry: theorems\<close>

lemma stringInSlice_iff: "stringInSlice a list \<longleftrightarrow> a \<in> set list"
  by (induction list) auto

lemma set_sort_Strings: "set (sort_Strings xs) = set xs"
  by (simp add: sort_Strings_def)

lemma fst_Mfas: "fst (Mfas tbl p) = sort_Strings (index_map tbl p)"
  by (simp add: Mfas_def Let_def)

lemma fst_invalidMFA: "fst (invalidMFA tbl p m) \<longleftrightarrow> m \<notin> set (index_map tbl p)"
  by (simp add: invalidMFA_def split_beta fst_Mfas stringInSlice_iff set_sort_Strings)

lemma fst_checked_case:
  "fst (checked_case tbl a c) =
     (if MFA a \<in> set (index_map tbl (Provider a)) then Inr c
      else Inl (invalid_MFA_type (MFA a) (Provider a)))"
  using fst_invalidMFA [of tbl "Provider a" "MFA a"]
  by (simp add: checked_case_def split_beta)

lemma keys_MFAsByProvider:
  "set (Names MFAsByProvider) =
     {''AzureAD'', ''ADFS'', ''ADFS2'', ''Ping'', ''PingOne'', ''JumpCloud'', ''Okta'',
      ''OneLogin'', ''KeyCloak'', ''GoogleApps'', ''Shibboleth'', ''F5APM'', ''Akamai'',
      ''ShibbolethECP'', ''NetIQ'', ''Custom'', ''Browser''}"
  by (simp add: Names_def set_sort_Strings MFAsByProvider_def)

text \<open>
  Claim C1. For an account whose provider is a key of the static table,
  \<open>NewSAMLClient\<close> returns the invalid-MFA error exactly when the account's MFA string
  is not one of the strings the table lists for that provider (equality of strings, so
  the case of the letters counts), except for \<open>Browser\<close> and \<open>Custom\<close> (and \<open>Shell\<close>,
  which is no key of the table), where a constructor is reached whatever the MFA is.
  The error is returned without any constructor being called, so nothing has touched
  the network.
\<close>

theorem NewSAMLClient_unsupported_MFA:
  assumes "Provider a \<in> set (Names MFAsByProvider)"
  shows "(Provider a \<in> {''Browser'', ''Shell'', ''Custom''} \<longrightarrow>
            (\<exists>c. fst (NewSAMLClient MFAsByProvider a) = Inr c))
       \<and> (Provider a \<notin> {''Browser'', ''Shell'', ''Custom''} \<longrightarrow>
            (fst (NewSAMLClient MFAsByProvider a) = Inl (invalid_MFA_type (MFA a) (Provider a))
               \<longleftrightarrow> MFA a \<notin> set (index_map MFAsByProvider (Provider a)))
          \<and> (MFA a \<in> set (index_map MFAsByProvider (Provider a)) \<longrightarrow>
               (\<exists>c. fst (NewSAMLClient MFAsByProvider a) = Inr c)))"
  using assms unfolding keys_MFAsByProvider
  by (auto simp: NewSAMLClient_def Let_def fst_checked_case)

theorem NewSAMLClient_unsupported_MFA_witness:
  "Provider (NewIDPAccount\<lparr>Provider := ''Okta'', MFA := ''sms''\<rparr>) \<in> set (Names MFAsByProvider)
   \<and> fst (NewSAMLClient MFAsByProvider (NewIDPAccount\<lparr>Provider := ''Okta'', MFA := ''sms''\<rparr>))
       = Inl (New ''invalid MFA type: sms for Okta provider'')
   \<and> (\<exists>c. fst (NewSAMLClient MFAsByProvider (NewIDPAccount\<lparr>Provider := ''Okta'', MFA := ''SMS''\<rparr>))
       = Inr c)
   \<and> (\<exists>c. fst (NewSAMLClient MFAsByProvider
                 (NewIDPAccount\<lparr>Provider := ''Browser'', MFA := ''sms''\<rparr>)) = Inr c)"
proof -
  have k: "''Okta'' \<in> set (Names MFAsByProvider)" "''Browser'' \<in> set (Names MFAsByProvider)"
    by (simp_all add: keys_MFAsByProvider)
  have 1: "''sms'' \<notin> set (index_map MFAsByProvider ''Okta'')"
    by (simp add: index_map_def MFAsByProvider_def)
  have 2: "''SMS'' \<in> set (index_map MFAsByProvider ''Okta'')"
    by (simp add: index_map_def MFAsByProvider_def)
  show ?thesis
    using NewSAMLClient_unsupported_MFA
            [of "NewIDPAccount\<lparr>Provider := ''Okta'', MFA := ''sms''\<rparr>"]
          NewSAMLClient_unsupported_MFA
            [of "NewIDPAccount\<lparr>Provider := ''Okta'', MFA := ''SMS''\<rparr>"]
          NewSAMLClient_unsupported_MFA
            [of "NewIDPAccount\<lparr>Provider := ''Browser'', MFA := ''sms''\<rparr>"]
          k 1 2
    by (simp add: invalid_MFA_type_def)
qed

text \<open>
  Claim C2, as stated, fails: \<open>Shell\<close> is no key of \<open>MFAsByProvider\<close>, and the switch
  has a case for it that calls \<open>shell.New\<close>.
\<close>

theorem NewSAMLClient_Shell_counterexample:
  "''Shell'' \<notin> set (Names MFAsByProvider)
   \<and> Provider (NewIDPAccount\<lparr>Provider := ''Shell''\<rparr>) = ''Shell''
   \<and> NewSAMLClient MFAsByProvider (NewIDPAccount\<lparr>Provider := ''Shell''\<rparr>)
       = (Inr (shell_New (NewIDPAccount\<lparr>Provider := ''Shell''\<rparr>)), MFAsByProvider)"
  by (simp add: keys_MFAsByProvider NewSAMLClient_def Let_def)

text \<open>
  Claim C2, amended. For every provider name that is neither a key of
  \<open>MFAsByProvider\<close> nor \<open>Shell\<close>, \<open>NewSAMLClient\<close> returns the error
  \<open>invalid provider: <name>\<close>, no client, and leaves the table as it was; for \<open>Shell\<close> it
  calls \<open>shell.New\<close> without looking at the MFA.
\<close>

theorem NewSAMLClient_unknown_provider:
  "(Provider a \<notin> set (Names MFAsByProvider) \<and> Provider a \<noteq> ''Shell'' \<longrightarrow>
      NewSAMLClient tbl a = (Inl (invalid_provider (Provider a)), tbl))
   \<and> (Provider a = ''Shell'' \<longrightarrow> NewSAMLClient tbl a = (Inr (shell_New a), tbl))"
  unfolding keys_MFAsByProvider
  by (simp add: NewSAMLClient_def Let_def)

theorem NewSAMLClient_unknown_provider_witness:
  "Provider (NewIDPAccount\<lparr>Provider := ''LDAP''\<rparr>) \<notin> set (Names MFAsByProvider)
   \<and> Provider (NewIDPAccount\<lparr>Provider := ''LDAP''\<rparr>) \<noteq> ''Shell''
   \<and> NewSAMLClient MFAsByProvider (NewIDPAccount\<lparr>Provider := ''LDAP''\<rparr>)
       = (Inl (New ''invalid provider: LDAP''), MFAsByProvider)"
proof -
  have k: "''LDAP'' \<notin> set (Names MFAsByProvider)"
    by (simp add: keys_MFAsByProvider)
  show ?thesis
    using NewSAMLClient_unknown_provider
            [of "NewIDPAccount\<lparr>Provider := ''LDAP''\<rparr>" MFAsByProvider] k
    by (simp add: invalid_provider_def)
qed

text \<open>
  Claim C8 does not hold of the code. \<open>Mfas\<close> sorts the slice it took out of the map in
  place, and the slice shares its array with the map's entry: after
  \<open>Mfas("AzureAD")\<close> the entry of \<open>AzureAD\<close> in \<open>MFAsByProvider\<close> is in another order.
  \<open>invalidMFA\<close> and \<open>NewSAMLClient\<close> call \<open>Mfas\<close> and change the table the same way.
  \<open>Names\<close>, which sorts a slice of its own, does not.
\<close>

theorem Mfas_sorts_table_in_place:
  "index_map MFAsByProvider ''AzureAD''
     = [''Auto'', ''PhoneAppOTP'', ''PhoneAppNotification'', ''OneWaySMS'']
   \<and> index_map (snd (Mfas MFAsByProvider ''AzureAD'')) ''AzureAD''
     = [''Auto'', ''OneWaySMS'', ''PhoneAppNotification'', ''PhoneAppOTP'']
   \<and> snd (Mfas MFAsByProvider ''AzureAD'') \<noteq> MFAsByProvider
   \<and> snd (invalidMFA MFAsByProvider ''AzureAD'' ''Auto'') \<noteq> MFAsByProvider
   \<and> snd (NewSAMLClient MFAsByProvider
            (NewIDPAccount\<lparr>Provider := ''AzureAD'', MFA := ''Auto''\<rparr>)) \<noteq> MFAsByProvider"
  by (simp add: Mfas_def invalidMFA_def NewSAMLClient_def checked_case_def Let_def
        index_map_def MFAsByProvider_def sort_Strings_def)

text \<open>What \<open>Mfas\<close> does keep: the keys, and the strings each key lists.\<close>

lemma Mfas_keeps_keys: "map fst (snd (Mfas tbl p)) = map fst tbl"
  by (induction tbl) (auto simp: Mfas_def Let_def)

lemma map_of_Mfas:
  "map_of (snd (Mfas tbl p)) q =
     (if q = p then map_option sort_Strings (map_of tbl q) else map_of tbl q)"
  by (induction tbl) (auto simp: Mfas_def Let_def)

lemma Mfas_keeps_members: "set (index_map (snd (Mfas tbl p)) q) = set (index_map tbl q)"
  by (cases "map_of tbl q") (auto simp: index_map_def map_of_Mfas set_sort_Strings)

text \<open>
  So the sorting in place changes the order of a provider's list and nothing else, and
  the verdict of \<open>NewSAMLClient\<close> is the same on every table that earlier calls of
  \<open>Mfas\<close> have left behind.
\<close>

lemma Mfas_changes_order_only:
  "fst (Mfas tbl p) = sort_Strings (index_map tbl p)
   \<and> sorted (fst (Mfas tbl p))
   \<and> mset (fst (Mfas tbl p)) = mset (index_map tbl p)
   \<and> map fst (snd (Mfas tbl p)) = map fst tbl
   \<and> (\<forall>q. mset (index_map (snd (Mfas tbl p)) q) = mset (index_map tbl q))
   \<and> index_map (snd (Mfas tbl p)) p = fst (Mfas tbl p)"
  by (auto simp: fst_Mfas Mfas_keeps_keys sort_Strings_def index_map_def map_of_Mfas
           split: option.splits)

lemma fst_checked_case_after_Mfas:
  "fst (checked_case (snd (Mfas tbl q)) a c) = fst (checked_case tbl a c)"
  by (simp add: fst_checked_case Mfas_keeps_members)

lemma NewSAMLClient_verdict_stable:
  "fst (NewSAMLClient (snd (Mfas tbl q)) a) = fst (NewSAMLClient tbl a)"
  by (simp add: NewSAMLClient_def Let_def fst_checked_case_after_Mfas)

text \<open>\<open>Names\<close> on the static table: the seventeen provider names in sorted order.\<close>

lemma Names_static_table:
  "Names MFAsByProvider =
     [''ADFS'', ''ADFS2'', ''Akamai'', ''AzureAD'', ''Browser'', ''Custom'', ''F5APM'',
      ''GoogleApps'', ''JumpCloud'', ''KeyCloak'', ''NetIQ'', ''Okta'', ''OneLogin'', ''Ping'',
      ''PingOne'', ''Shibboleth'', ''ShibbolethECP'']"
  by (simp add: Names_def sort_Strings_def MFAsByProvider_def)

section \<open>Login details: theorems\<close>

text \<open>
  Claim C9. \<open>Validate\<close> rejects every \<open>LoginDetails\<close> with an empty URL; when the
  provider is not \<open>Browser\<close> it also rejects an empty username and an empty password
  (and accepts when all three are there); when the provider is \<open>Browser\<close> a non-empty
  URL is enough.
\<close>

theorem ValidateBase_Validate_rejects:
  "(LoginDetails.URL ld = '''' \<longrightarrow> ValidateBase_Validate ld = Some (New ''Empty URL''))
   \<and> (LoginDetails.Provider ld \<noteq> ''Browser'' \<longrightarrow>
        (LoginDetails.Username ld = '''' \<or> Password ld = '''' \<longrightarrow>
           ValidateBase_Validate ld \<noteq> None)
      \<and> (LoginDetails.URL ld \<noteq> '''' \<and> LoginDetails.Username ld = '''' \<longrightarrow>
           ValidateBase_Validate ld = Some (New ''Empty username''))
      \<and> (LoginDetails.URL ld \<noteq> '''' \<and> LoginDetails.Username ld \<noteq> '''' \<and> Password ld = '''' \<longrightarrow>
           ValidateBase_Validate ld = Some (New ''Empty password''))
      \<and> (LoginDetails.URL ld \<noteq> '''' \<and> LoginDetails.Username ld \<noteq> '''' \<and> Password ld \<noteq> '''' \<longrightarrow>
           ValidateBase_Validate ld = None))
   \<and> (LoginDetails.Provider ld = ''Browser'' \<and> LoginDetails.URL ld \<noteq> '''' \<longrightarrow>
        ValidateBase_Validate ld = None)"
  by (simp add: ValidateBase_Validate_def)

theorem ValidateBase_Validate_rejects_witness:
  "ValidateBase_Validate
     \<lparr>ClientID = '''', ClientSecret = '''', LoginDetails.Username = ''alice'', Password = '''',
      LoginDetails.URL = ''https://idp.example.com'', LoginDetails.Provider = ''Okta''\<rparr>
     = Some (New ''Empty password'')
   \<and> ValidateBase_Validate
     \<lparr>ClientID = '''', ClientSecret = '''', LoginDetails.Username = '''', Password = '''',
      LoginDetails.URL = ''https://idp.example.com'', LoginDetails.Provider = ''Browser''\<rparr>
     = None
   \<and> ValidateBase_Validate
     \<lparr>ClientID = '''', ClientSecret = '''', LoginDetails.Username = ''alice'', Password = ''pw'',
      LoginDetails.URL = '''', LoginDetails.Provider = ''Browser''\<rparr>
     = Some (New ''Empty URL'')"
  using ValidateBase_Validate_rejects
    [of "\<lparr>ClientID = '''', ClientSecret = '''', LoginDetails.Username = ''alice'', Password = '''',
      LoginDetails.URL = ''https://idp.example.com'', LoginDetails.Provider = ''Okta''\<rparr>"]
    ValidateBase_Validate_rejects
    [of "\<lparr>ClientID = '''', ClientSecret = '''', LoginDetails.Username = '''', Password = '''',
      LoginDetails.URL = ''https://idp.example.com'', LoginDetails.Provider = ''Browser''\<rparr>"]
    ValidateBase_Validate_rejects
    [of "\<lparr>ClientID = '''', ClientSecret = '''', LoginDetails.Username = ''alice'', Password = ''pw'',
      LoginDetails.URL = '''', LoginDetails.Provider = ''Browser''\<rparr>"]
  by simp

text \<open>
  Claim C10. \<open>PromptForLoginDetails\<close> never clears a stored secret: an empty answer
  to the password prompt leaves \<open>Password\<close> as it was, and an empty answer to the
  client id or client secret prompt leaves \<open>ClientID\<close> or \<open>ClientSecret\<close> as it was
  (these two are only asked for with provider \<open>OneLogin\<close>, and only when the field is
  empty, so a stored value is never replaced at all). With provider \<open>Browser\<close> the
  function returns at once and every field is as before.
\<close>

theorem PromptForLoginDetails_keeps_secrets:
  "(provider = ''Browser'' \<longrightarrow>
      PromptForLoginDetails pString pPassword ld provider = (None, ld))
   \<and> (pPassword ''Password'' = '''' \<longrightarrow>
        Password (snd (PromptForLoginDetails pString pPassword ld provider)) = Password ld)
   \<and> (pPassword ''Client ID'' = '''' \<longrightarrow>
        ClientID (snd (PromptForLoginDetails pString pPassword ld provider)) = ClientID ld)
   \<and> (pPassword ''Client Secret'' = '''' \<longrightarrow>
        ClientSecret (snd (PromptForLoginDetails pString pPassword ld provider))
          = ClientSecret ld)
   \<and> (Password ld \<noteq> '''' \<longrightarrow>
        Password (snd (PromptForLoginDetails pString pPassword ld provider)) \<noteq> '''')
   \<and> (ClientID ld \<noteq> '''' \<or> provider \<noteq> ''OneLogin'' \<longrightarrow>
        ClientID (snd (PromptForLoginDetails pString pPassword ld provider)) = ClientID ld)
   \<and> (ClientSecret ld \<noteq> '''' \<or> provider \<noteq> ''OneLogin'' \<longrightarrow>
        ClientSecret (snd (PromptForLoginDetails pString pPassword ld provider))
          = ClientSecret ld)
   \<and> fst (PromptForLoginDetails pString pPassword ld provider) = None"
  by (simp add: PromptForLoginDetails_def Let_def)

theorem PromptForLoginDetails_keeps_secrets_witness:
  "PromptForLoginDetails (\<lambda>prompt d. d) (\<lambda>prompt. '''')
     \<lparr>ClientID = ''id'', ClientSecret = '''', LoginDetails.Username = ''u'', Password = ''pw'',
      LoginDetails.URL = ''https://idp.example.com'', LoginDetails.Provider = ''OneLogin''\<rparr>
     ''OneLogin''
   = (None,
      \<lparr>ClientID = ''id'', ClientSecret = '''', LoginDetails.Username = ''u'', Password = ''pw'',
       LoginDetails.URL = ''https://idp.example.com'', LoginDetails.Provider = ''OneLogin''\<rparr>)
   \<and> PromptForLoginDetails (\<lambda>prompt d. ''other'') (\<lambda>prompt. ''typed'')
     \<lparr>ClientID = ''id'', ClientSecret = '''', LoginDetails.Username = ''u'', Password = ''pw'',
      LoginDetails.URL = ''https://idp.example.com'', LoginDetails.Provider = ''Browser''\<rparr>
     ''Browser''
   = (None,
      \<lparr>ClientID = ''id'', ClientSecret = '''', LoginDetails.Username = ''u'', Password = ''pw'',
       LoginDetails.URL = ''https://idp.example.com'', LoginDetails.Provider = ''Browser''\<rparr>)"
  using PromptForLoginDetails_keeps_secrets
    [of "''OneLogin''" "\<lambda>prompt d. d" "\<lambda>prompt. ''''"
        "\<lparr>ClientID = ''id'', ClientSecret = '''', LoginDetails.Username = ''u'',
          Password = ''pw'', LoginDetails.URL = ''https://idp.example.com'',
          LoginDetails.Provider = ''OneLogin''\<rparr>"]
    PromptForLoginDetails_keeps_secrets
    [of "''Browser''" "\<lambda>prompt d. ''other''" "\<lambda>prompt. ''typed''"
        "\<lparr>ClientID = ''id'', ClientSecret = '''', LoginDetails.Username = ''u'',
          Password = ''pw'', LoginDetails.URL = ''https://idp.example.com'',
          LoginDetails.Provider = ''Browser''\<rparr>"]
  by (simp add: PromptForLoginDetails_def Let_def)

section \<open>Role selection: theorems\<close>

lemma snd_range_roles:
  "snd (range_roles n rs acc) = snd acc @ map (\<lambda>r. n @ '' / '' @ RamRole.Name r) rs"
  by (induction n rs acc rule: range_roles.induct) (simp_all add: Let_def)

lemma snd_range_accounts:
  "snd (range_accounts accounts acc) = snd acc @ composite_labels accounts"
  by (induction accounts acc rule: range_accounts.induct)
     (simp_all add: composite_labels_def snd_range_roles)

lemma composite_labels_Nil_iff:
  "composite_labels accounts = [] \<longleftrightarrow> concat (map Roles accounts) = []"
  by (induction accounts) (simp_all add: composite_labels_def)

lemma length_composite_labels:
  "length (composite_labels accounts) = length (concat (map Roles accounts))"
  by (induction accounts) (simp_all add: composite_labels_def)

lemma sort_Strings_Nil_iff: "sort_Strings xs = [] \<longleftrightarrow> xs = []"
  by (metis sort_Strings_def length_sort length_0_conv)

text \<open>
  Claim C3. When the accounts hold at least one role, \<open>PromptForRamRoleSelection\<close>
  hands the chooser the composite labels, one per role of every account, in sorted
  (byte-wise lexicographic) order, with the first of them as the default; what it
  returns is the chooser's answer looked up in the map of labels, or the chooser's
  error wrapped.
\<close>

theorem PromptForRamRoleSelection_sorted_labels:
  assumes "concat (map Roles accounts) \<noteq> []"
  shows "PromptForRamRoleSelection chooser accounts =
           Inr (case chooser ''Please choose the role''
                       (hd (sort_Strings (composite_labels accounts)))
                       (sort_Strings (composite_labels accounts)) of
                  Inl err \<Rightarrow> Inl (Wrap err ''Role selection failed'')
                | Inr selectedRole \<Rightarrow>
                    Inr (fst (range_accounts accounts (Map.empty, [])) selectedRole))
       \<and> sorted (sort_Strings (composite_labels accounts))
       \<and> mset (sort_Strings (composite_labels accounts)) = mset (composite_labels accounts)
       \<and> length (sort_Strings (composite_labels accounts))
           = length (concat (map Roles accounts))"
proof -
  obtain roles opts where ra: "range_accounts accounts (Map.empty, []) = (roles, opts)"
    by (cases "range_accounts accounts (Map.empty, [])")
  have opts: "opts = composite_labels accounts"
    using snd_range_accounts [of accounts "(Map.empty, [])"] ra by simp
  have ne: "sort_Strings (composite_labels accounts) \<noteq> []"
    using assms by (simp add: sort_Strings_Nil_iff composite_labels_Nil_iff)
  then obtain x xs where xs: "sort_Strings (composite_labels accounts) = x # xs"
    by (cases "sort_Strings (composite_labels accounts)") auto
  have hd: "hd (sort_Strings (composite_labels accounts)) = x"
    by (simp add: xs)
  have roles: "fst (range_accounts accounts (Map.empty, [])) = roles"
    by (simp add: ra)
  have run: "PromptForRamRoleSelection chooser accounts =
           Inr (case chooser ''Please choose the role'' x (x # xs) of
                  Inl err \<Rightarrow> Inl (Wrap err ''Role selection failed'')
                | Inr selectedRole \<Rightarrow> Inr (roles selectedRole))"
    by (simp add: PromptForRamRoleSelection_def ra opts xs split: sum.splits)
  have srt: "sorted (sort_Strings (composite_labels accounts))"
    by (simp add: sort_Strings_def)
  have perm: "mset (sort_Strings (composite_labels accounts)) = mset (composite_labels accounts)"
    by (simp add: sort_Strings_def)
  have len: "length (sort_Strings (composite_labels accounts))
               = length (concat (map Roles accounts))"
    by (simp add: sort_Strings_def length_composite_labels)
  show ?thesis
    unfolding hd roles using run srt perm len by (simp only: xs simp_thms)
qed

text \<open>
  The example of the specification: the roles \<open>Acct2 / Admin\<close>, \<open>Acct1 / Admin\<close>,
  \<open>Acct1 / Viewer\<close> are shown as \<open>Acct1 / Admin\<close>, \<open>Acct1 / Viewer\<close>, \<open>Acct2 / Admin\<close>
  with \<open>Acct1 / Admin\<close> as the default. The chooser used here accepts the default when
  it is shown exactly that, and fails otherwise.
\<close>

theorem PromptForRamRoleSelection_sorted_labels_witness:
  "concat (map Roles
     [\<lparr>AlibabaCloudAccount.Name = ''Acct2'',
       Roles = [\<lparr>RamRole.RoleARN = ''arn:role:2a'', PrincipalARN = ''arn:idp:2'',
                 RamRole.Name = ''Admin''\<rparr>]\<rparr>,
      \<lparr>AlibabaCloudAccount.Name = ''Acct1'',
       Roles = [\<lparr>RamRole.RoleARN = ''arn:role:1a'', PrincipalARN = ''arn:idp:1'',
                 RamRole.Name = ''Admin''\<rparr>,
                \<lparr>RamRole.RoleARN = ''arn:role:1v'', PrincipalARN = ''arn:idp:1'',
                 RamRole.Name = ''Viewer''\<rparr>]\<rparr>]) \<noteq> []
   \<and> composite_labels
     [\<lparr>AlibabaCloudAccount.Name = ''Acct2'',
       Roles = [\<lparr>RamRole.RoleARN = ''arn:role:2a'', PrincipalARN = ''arn:idp:2'',
                 RamRole.Name = ''Admin''\<rparr>]\<rparr>,
      \<lparr>AlibabaCloudAccount.Name = ''Acct1'',
       Roles = [\<lparr>RamRole.RoleARN = ''arn:role:1a'', PrincipalARN = ''arn:idp:1'',
                 RamRole.Name = ''Admin''\<rparr>,
                \<lparr>RamRole.RoleARN = ''arn:role:1v'', PrincipalARN = ''arn:idp:1'',
                 RamRole.Name = ''Viewer''\<rparr>]\<rparr>]
       = [''Acct2 / Admin'', ''Acct1 / Admin'', ''Acct1 / Viewer'']
   \<and> PromptForRamRoleSelection
     (\<lambda>prompt d options.
        if d = ''Acct1 / Admin''
           \<and> options = [''Acct1 / Admin'', ''Acct1 / Viewer'', ''Acct2 / Admin'']
        then Inr d else Inl (New ''not the expected prompt''))
     [\<lparr>AlibabaCloudAccount.Name = ''Acct2'',
       Roles = [\<lparr>RamRole.RoleARN = ''arn:role:2a'', PrincipalARN = ''arn:idp:2'',
                 RamRole.Name = ''Admin''\<rparr>]\<rparr>,
      \<lparr>AlibabaCloudAccount.Name = ''Acct1'',
       Roles = [\<lparr>RamRole.RoleARN = ''arn:role:1a'', PrincipalARN = ''arn:idp:1'',
                 RamRole.Name = ''Admin''\<rparr>,
                \<lparr>RamRole.RoleARN = ''arn:role:1v'', PrincipalARN = ''arn:idp:1'',
                 RamRole.Name = ''Viewer''\<rparr>]\<rparr>]
       = Inr (Inr (Some \<lparr>RamRole.RoleARN = ''arn:role:1a'', PrincipalARN = ''arn:idp:1'',
                         RamRole.Name = ''Admin''\<rparr>))"
proof -
  let ?accounts =
    "[\<lparr>AlibabaCloudAccount.Name = ''Acct2'',
       Roles = [\<lparr>RamRole.RoleARN = ''arn:role:2a'', PrincipalARN = ''arn:idp:2'',
                 RamRole.Name = ''Admin''\<rparr>]\<rparr>,
      \<lparr>AlibabaCloudAccount.Name = ''Acct1'',
       Roles = [\<lparr>RamRole.RoleARN = ''arn:role:1a'', PrincipalARN = ''arn:idp:1'',
                 RamRole.Name = ''Admin''\<rparr>,
                \<lparr>RamRole.RoleARN = ''arn:role:1v'', PrincipalARN = ''arn:idp:1'',
                 RamRole.Name = ''Viewer''\<rparr>]\<rparr>]"
  let ?chooser =
    "\<lambda>prompt d options.
        if d = ''Acct1 / Admin''
           \<and> options = [''Acct1 / Admin'', ''Acct1 / Viewer'', ''Acct2 / Admin'']
        then Inr d else Inl (New ''not the expected prompt'') :: error + string"
  have h: "concat (map Roles ?accounts) \<noteq> []"
    by simp
  have labels: "composite_labels ?accounts
                  = [''Acct2 / Admin'', ''Acct1 / Admin'', ''Acct1 / Viewer'']"
    by (simp add: composite_labels_def)
  have sorted: "sort_Strings [''Acct2 / Admin'', ''Acct1 / Admin'', ''Acct1 / Viewer'']
                  = [''Acct1 / Admin'', ''Acct1 / Viewer'', ''Acct2 / Admin'']"
    by (simp add: sort_Strings_def)
  have roles: "fst (range_accounts ?accounts (Map.empty, [])) ''Acct1 / Admin''
                 = Some \<lparr>RamRole.RoleARN = ''arn:role:1a'', PrincipalARN = ''arn:idp:1'',
                         RamRole.Name = ''Admin''\<rparr>"
    by (simp add: Let_def)
  from PromptForRamRoleSelection_sorted_labels [OF h, of ?chooser]
  have "PromptForRamRoleSelection ?chooser ?accounts
          = Inr (Inr (Some \<lparr>RamRole.RoleARN = ''arn:role:1a'', PrincipalARN = ''arn:idp:1'',
                            RamRole.Name = ''Admin''\<rparr>))"
    unfolding labels sorted using roles by simp
  with h labels show ?thesis
    by (simp only: simp_thms)
qed

text \<open>
  Claim C4 does not hold of the code. With no role at all (an empty list of accounts,
  or accounts without roles) \<open>roleOptions\<close> is empty and the index expression
  \<open>roleOptions[0]\<close> panics: the function returns neither a role nor an error.
\<close>

theorem PromptForRamRoleSelection_empty_panics:
  "concat (map Roles accounts) = [] \<Longrightarrow>
     PromptForRamRoleSelection chooser accounts = Inl (index_out_of_range 0 0)"
proof -
  assume a: "concat (map Roles accounts) = []"
  obtain roles opts where ra: "range_accounts accounts (Map.empty, []) = (roles, opts)"
    by (cases "range_accounts accounts (Map.empty, [])")
  have "opts = []"
    using snd_range_accounts [of accounts "(Map.empty, [])"] ra a
    by (simp add: composite_labels_Nil_iff)
  then show ?thesis
    by (simp add: PromptForRamRoleSelection_def ra sort_Strings_def)
qed

theorem PromptForRamRoleSelection_empty_panics_witness:
  "concat (map Roles ([] :: AlibabaCloudAccount list)) = []
   \<and> PromptForRamRoleSelection (\<lambda>prompt d options. Inr d) [] = Inl (index_out_of_range 0 0)
   \<and> PromptForRamRoleSelection (\<lambda>prompt d options. Inr d)
        [\<lparr>AlibabaCloudAccount.Name = ''Acct1'', Roles = []\<rparr>] = Inl (index_out_of_range 0 0)"
  using PromptForRamRoleSelection_empty_panics [of "[]" "\<lambda>prompt d options. Inr d"]
        PromptForRamRoleSelection_empty_panics
          [of "[\<lparr>AlibabaCloudAccount.Name = ''Acct1'', Roles = []\<rparr>]"
              "\<lambda>prompt d options. Inr d"]
  by simp

section \<open>Profile configuration store: theorems\<close>


















text \<open>
  The parent sections of some names.
\<close>

lemma lineage_examples:
  "lineage ''home'' = [''home'']"
  "lineage ''work.sub'' = [''work.sub'', ''work'']"
  "lineage ''work.home'' = [''work.home'', ''work'']"
  "lineage ''a.b.c'' = [''a.b.c'', ''a.b'', ''a'']"
  "lineage ''.x'' = [''.x'', ''DEFAULT'']"
  by (simp_all add: lineage_def parents_def section_name_def DefaultSection_def)






text \<open>When no section of the lineage holds a key, \<open>MapTo\<close> finds nothing.\<close>

lemma find_key_None:
  "(\<forall>n \<in> set chain. section_keys f n = []) \<Longrightarrow> find_key f chain key = None"
  by (induction f chain key rule: find_key.induct)
     (auto simp: section_keys_def split: option.splits)

lemma section_keys_section_name: "section_keys f (section_name n) = section_keys f n"
  by (simp add: section_keys_def GetSection_def section_name_def DefaultSection_def)

lemma section_keys_append_empty:
  "section_keys (f @ [(m, [])]) n = section_keys f n"
  by (cases "map_of f (section_name n)")
     (auto simp: section_keys_def GetSection_def map_add_def split: option.splits)

lemma parents_section_name: "parents (section_name n) = parents n"
  by (simp add: section_name_def DefaultSection_def parents_def)

lemma GetKey_None:
  assumes "\<forall>n \<in> set (lineage name). section_keys f n = []"
  shows "GetKey f (section_name name) key = None"
proof -
  have "\<forall>n \<in> set (section_name name # parents (section_name name)). section_keys f n = []"
    using assms
    by (auto simp: lineage_def parents_section_name section_keys_section_name)
  then show ?thesis
    unfolding GetKey_def by (rule find_key_None)
qed

lemma MapTo_no_keys:
  assumes "\<And>key. GetKey f sname key = None"
  shows "MapTo lib f sname a = Inr a"
  by (simp add: MapTo_def map_string_def map_bool_def map_int_def assms)

lemma readAccount_no_keys:
  assumes "\<forall>n \<in> set (lineage name). section_keys f n = []"
  shows "readAccount lib name f = Inr NewIDPAccount"
proof -
  have 1: "GetKey f (section_name name) key = None" for key
    using assms by (rule GetKey_None)
  have "\<forall>n \<in> set (lineage name). section_keys (f @ [(section_name name, [])]) n = []"
    using assms by (simp add: section_keys_append_empty)
  then have 2: "GetKey (f @ [(section_name name, [])]) (section_name name) key = None" for key
    by (rule GetKey_None)
  show ?thesis
    by (simp add: readAccount_def File_Section_def MapTo_no_keys 1 2 split: option.splits)
qed

text \<open>
  Claim C7, as stated, fails twice. The file below has no section \<open>work.home\<close>, yet
  loading that name returns the URL and the provider of the section \<open>work\<close>: the
  section made for the missing name is a child of \<open>work\<close>, and \<open>MapTo\<close> reads the
  keys it lacks from the parent. And a file that the parser rejects has no section of
  any name, yet loading from it returns the error
  \<open>Unable to load configuration file\<close>.
\<close>

theorem LoadIDPAccount_parent_counterexample:
  "section_keys [(''work'', [(''url'', ''https://work.example.com''),
                            (''provider'', ''ADFS'')])] ''work.home'' = []
   \<and> LoadIDPAccount
       \<lparr>ini_parse = (\<lambda>b. b), ini_write = Inr, ini_interpolate = (\<lambda>f h v. v),
        ini_bool = (\<lambda>s b. b), ini_int = (\<lambda>s i. i)\<rparr>
       \<lparr>contents = (\<lambda>p. Content (Inr [(''work'', [(''url'', ''https://work.example.com''),
                                                      (''provider'', ''ADFS'')])])),
        write_error = (\<lambda>p. None)\<rparr>
       \<lparr>configPath = ''/home/u/.saml2alibabacloud''\<rparr> ''work.home''
     = Inr (NewIDPAccount\<lparr>URL := ''https://work.example.com'', Provider := ''ADFS''\<rparr>)
   \<and> NewIDPAccount\<lparr>URL := ''https://work.example.com'', Provider := ''ADFS''\<rparr> \<noteq> NewIDPAccount
   \<and> LoadIDPAccount
       \<lparr>ini_parse = (\<lambda>b. b), ini_write = Inr, ini_interpolate = (\<lambda>f h v. v),
        ini_bool = (\<lambda>s b. b), ini_int = (\<lambda>s i. i)\<rparr>
       \<lparr>contents = (\<lambda>p. Content (Inl (New ''key-value delimiter not found''))),
        write_error = (\<lambda>p. None)\<rparr>
       \<lparr>configPath = ''/home/u/.saml2alibabacloud''\<rparr> ''home''
     = Inl (Wrap (New ''key-value delimiter not found'') ''Unable to load configuration file'')"
  by (simp add: section_keys_def LoadIDPAccount_def LoadSources_def readAccount_def
        File_Section_def MapTo_def map_string_def map_bool_def map_int_def Key_String_def
        GetKey_def GetSection_def section_name_def parents_def DefaultSection_def
        NewIDPAccount_def)

text \<open>
  Claim C7, amended. \<open>LoadIDPAccount\<close> returns no error but the account of
  \<open>NewIDPAccount\<close> (the URN, the session duration and the profile at their defaults,
  every other field at its zero value) when the configuration file does not exist, and
  when it parses and neither the section of the name nor any of its parent sections
  holds a key. When the parser rejects the file, \<open>LoadIDPAccount\<close> returns the
  parser's error wrapped in \<open>Unable to load configuration file\<close>.
\<close>

theorem LoadIDPAccount_missing_section:
  "(loaded lib fs (configPath cm) = Some f
      \<and> (\<forall>n \<in> set (lineage name). section_keys f n = []) \<longrightarrow>
      LoadIDPAccount lib fs cm name = Inr NewIDPAccount)
   \<and> (contents fs (configPath cm) = NotExist \<longrightarrow>
        LoadIDPAccount lib fs cm name = Inr NewIDPAccount)
   \<and> (\<forall>b err. contents fs (configPath cm) = Content b \<and> ini_parse lib b = Inl err \<longrightarrow>
        LoadIDPAccount lib fs cm name = Inl (Wrap err ''Unable to load configuration file''))
   \<and> AlibabaCloudURN NewIDPAccount = DefaultAlibabaCloudURN
   \<and> SessionDuration NewIDPAccount = DefaultSessionDuration
   \<and> Profile NewIDPAccount = DefaultProfile"
proof (intro conjI impI allI)
  assume "loaded lib fs (configPath cm) = Some f
      \<and> (\<forall>n \<in> set (lineage name). section_keys f n = [])"
  then show "LoadIDPAccount lib fs cm name = Inr NewIDPAccount"
    by (auto simp: loaded_def LoadIDPAccount_def readAccount_no_keys split: sum.splits)
next
  assume n: "contents fs (configPath cm) = NotExist"
  have "\<forall>n \<in> set (lineage name). section_keys [(DefaultSection, [])] n = []"
    by (simp add: section_keys_def GetSection_def)
  then show "LoadIDPAccount lib fs cm name = Inr NewIDPAccount"
    by (simp add: LoadIDPAccount_def LoadSources_def n readAccount_no_keys)
next
  fix b err
  assume "contents fs (configPath cm) = Content b \<and> ini_parse lib b = Inl err"
  then show "LoadIDPAccount lib fs cm name
               = Inl (Wrap err ''Unable to load configuration file'')"
    by (simp add: LoadIDPAccount_def LoadSources_def)
qed (simp_all add: NewIDPAccount_def)

theorem LoadIDPAccount_missing_section_witness:
  "LoadIDPAccount
     \<lparr>ini_parse = (\<lambda>b. b), ini_write = Inr, ini_interpolate = (\<lambda>f h v. v),
      ini_bool = (\<lambda>s b. b), ini_int = (\<lambda>s i. i)\<rparr>
     \<lparr>contents = (\<lambda>p. NotExist), write_error = (\<lambda>p. None)\<rparr>
     \<lparr>configPath = ''/home/u/.saml2alibabacloud''\<rparr> ''work'' = Inr NewIDPAccount
   \<and> lineage ''home'' = [''home'']
   \<and> section_keys [(''DEFAULT'', []), (''work'', [(''url'', ''https://work.example.com'')])]
        ''home'' = []
   \<and> LoadIDPAccount
     \<lparr>ini_parse = (\<lambda>b. b), ini_write = Inr, ini_interpolate = (\<lambda>f h v. v),
      ini_bool = (\<lambda>s b. b), ini_int = (\<lambda>s i. i)\<rparr>
     \<lparr>contents = (\<lambda>p. Content (Inr [(''work'', [(''url'', ''https://work.example.com'')])])),
      write_error = (\<lambda>p. None)\<rparr>
     \<lparr>configPath = ''/home/u/.saml2alibabacloud''\<rparr> ''home'' = Inr NewIDPAccount
   \<and> Profile NewIDPAccount = ''saml'' \<and> SessionDuration NewIDPAccount = 3600
   \<and> AlibabaCloudURN NewIDPAccount = ''urn:alibaba:cloudcomputing''"
proof -
  let ?lib = "\<lparr>ini_parse = (\<lambda>b. b), ini_write = Inr, ini_interpolate = (\<lambda>f h v. v),
        ini_bool = (\<lambda>s b. b), ini_int = (\<lambda>s i. i)\<rparr> :: (error + File) Library"
  let ?nofile = "\<lparr>contents = (\<lambda>p. NotExist), write_error = (\<lambda>p. None)\<rparr>
                :: (error + File) FileSystem"
  let ?fs = "\<lparr>contents = (\<lambda>p. Content (Inr [(''work'',
                [(''url'', ''https://work.example.com'')])])),
              write_error = (\<lambda>p. None)\<rparr> :: (error + File) FileSystem"
  let ?cm = "\<lparr>configPath = ''/home/u/.saml2alibabacloud''\<rparr>"
  let ?f = "[(''DEFAULT'', []), (''work'', [(''url'', ''https://work.example.com'')])]"
  have lin: "lineage ''home'' = [''home'']"
    by (simp add: lineage_def parents_def section_name_def)
  have keys: "section_keys ?f ''home'' = []"
    by (simp add: section_keys_def GetSection_def section_name_def)
  have ld: "loaded ?lib ?fs (configPath ?cm) = Some ?f"
    by (simp add: loaded_def LoadSources_def DefaultSection_def)
  have h: "\<forall>n \<in> set (lineage ''home''). section_keys ?f n = []"
    using keys by (simp add: lin)
  have 1: "LoadIDPAccount ?lib ?nofile ?cm ''work'' = Inr NewIDPAccount"
    using LoadIDPAccount_missing_section [of ?lib ?nofile ?cm "[]" "''work''"] by simp
  have 2: "LoadIDPAccount ?lib ?fs ?cm ''home'' = Inr NewIDPAccount"
    using LoadIDPAccount_missing_section [of ?lib ?fs ?cm ?f "''home''"] ld h by blast
  have 3: "Profile NewIDPAccount = ''saml'' \<and> SessionDuration NewIDPAccount = 3600
           \<and> AlibabaCloudURN NewIDPAccount = ''urn:alibaba:cloudcomputing''"
    using LoadIDPAccount_missing_section [of ?lib ?fs ?cm ?f "''home''"]
    by (simp add: DefaultProfile_def DefaultSessionDuration_def DefaultAlibabaCloudURN_def)
  from 1 lin keys 2 3 show ?thesis
    by (simp only: simp_thms)
qed

end
